theory Spec2Isabelle
  imports Main "HOL-Library.Sublist"
begin

section \<open>Conversation history manager: data model\<close>

text \<open>
  A shallow embedding of \<^verbatim>\<open>src/backend/conversation_history_manager.py\<close>.

  Python values that can sit under the keys of a message dictionary: the
  string a request carries, or \<^verbatim>\<open>None\<close> (the callers in
  \<^verbatim>\<open>main.py\<close> and \<^verbatim>\<open>rag_service.py\<close> build history entries with
  \<^verbatim>\<open>msg.get("role")\<close>, which is \<^verbatim>\<open>None\<close> for a missing key).
  Strings are HOL strings; \<^verbatim>\<open>str.lower\<close> is modelled on the ASCII letters, which
  is all that a comparison with \<^verbatim>\<open>"user"\<close> or \<^verbatim>\<open>"assistant"\<close> can see.
\<close>

datatype pyval = PyNone | PyStr string

text \<open>
  A key of a dictionary is absent (\<open>None\<close>) or bound to a value (\<open>Some v\<close>).
  \<open>dict_get\<close> is \<^verbatim>\<open>d.get(k)\<close>, \<open>dict_get_default\<close> is \<^verbatim>\<open>d.get(k, default)\<close>.
\<close>

definition dict_get :: "pyval option \<Rightarrow> pyval" where
  "dict_get f = (case f of None \<Rightarrow> PyNone | Some v \<Rightarrow> v)"

definition dict_get_default :: "pyval option \<Rightarrow> pyval \<Rightarrow> pyval" where
  "dict_get_default f d = (case f of None \<Rightarrow> d | Some v \<Rightarrow> v)"

record message =
  role :: "pyval option"
  content :: "pyval option"
  timestamp :: "pyval option"

text \<open>
  The document stored per conversation. Each key may be absent; \<open>messages\<close>, when
  present, is a list of message dictionaries.
\<close>

record conversation_data =
  conversation_id :: "string option"
  created_at :: "string option"
  updated_at :: "string option"
  messages :: "message list option"

text \<open>
  An entry of the \<^verbatim>\<open>conversation_history\<close> argument is a dictionary
  (\<^verbatim>\<open>isinstance(msg, dict)\<close>) or an object with attributes \<^verbatim>\<open>role\<close> and
  \<^verbatim>\<open>content\<close> (a \<^verbatim>\<open>ConversationMessage\<close> of \<^verbatim>\<open>schemas.py\<close>, both fields
  \<^verbatim>\<open>str\<close>).
\<close>

datatype history_entry =
  DictEntry "pyval option" "pyval option"
| ObjEntry string string

text \<open>
  Exceptions. \<open>ClientError code text\<close> is botocore's error with its error code and
  its \<^verbatim>\<open>str(e)\<close>; \<open>Exception msg\<close> is the plain \<^verbatim>\<open>Exception(msg)\<close> that
  \<^verbatim>\<open>_load_from_storage\<close> raises itself; \<open>AttributeError a\<close> is what the call of
  a method \<open>a\<close> on \<^verbatim>\<open>None\<close> raises; \<open>OtherError\<close> stands for every other fault of the I/O layer
  (\<^verbatim>\<open>PermissionError\<close>, a connection error, \<^verbatim>\<open>JSONDecodeError\<close>, ...).
\<close>

datatype exn =
  ClientError string string
| Exception string
| AttributeError string
| OtherError string

text \<open>
  What the backend holds under a key: nothing, a readable document, or something
  whose read raises.
\<close>

datatype cell = Missing | Holds conversation_data | Broken exn

text \<open>
  The calls that reach the backend, in the order in which they are made.
\<close>

datatype backend_call =
  GetObject string
| PutObject string
| PathExists string
| OpenRead string
| OpenWrite string

text \<open>
  The faults of a write: \<open>StoreFault\<close> is raised by \<^verbatim>\<open>put_object\<close> or by
  \<^verbatim>\<open>open(path, "w")\<close> itself, \<open>EncodeFault\<close> while the document is turned into text
  (\<^verbatim>\<open>json.dumps\<close> and \<^verbatim>\<open>encode\<close> before \<^verbatim>\<open>put_object\<close> is called;
  \<^verbatim>\<open>json.dump\<close> into the file that \<^verbatim>\<open>open\<close> has already emptied).
\<close>

datatype fault = StoreFault exn | EncodeFault exn

text \<open>
  The manager with its environment: the backend switch \<^verbatim>\<open>self.use_s3\<close>; the
  file that the path \<^verbatim>\<open>self.storage_dir / name\<close> denotes (different names may denote
  one file); the contents of the backend, by object key or by file; the fault that a
  write of a key or file meets; the clock, where \<open>clock w n\<close> is what the \<open>n\<close>-th call
  of \<^verbatim>\<open>datetime.utcnow().isoformat()\<close> returns and \<open>ticks w\<close> counts the calls made; and
  the calls made to the backend so far.
\<close>

record world =
  use_s3 :: bool
  file_of :: "string \<Rightarrow> string"
  objects :: "string \<Rightarrow> cell"
  write_fault :: "string \<Rightarrow> fault option"
  clock :: "nat \<Rightarrow> string"
  ticks :: nat
  calls :: "backend_call list"

section \<open>Environment operations\<close>

definition utcnow :: "world \<Rightarrow> string \<times> world" where
  "utcnow w = (clock w (ticks w), w\<lparr>ticks := Suc (ticks w)\<rparr>)"

definition get_conversation_file :: "world \<Rightarrow> string \<Rightarrow> string" where
  "get_conversation_file w cid = file_of w (cid @ ''.json'')"

definition get_s3_key :: "string \<Rightarrow> string" where
  "get_s3_key cid = cid @ ''.json''"

text \<open>
  \<^verbatim>\<open>s3_client.get_object\<close> followed by \<^verbatim>\<open>json.loads\<close>: a missing key is
  reported by a \<^verbatim>\<open>ClientError\<close> whose code is \<^verbatim>\<open>NoSuchKey\<close>.
\<close>

definition get_object :: "world \<Rightarrow> string \<Rightarrow> (exn + conversation_data) \<times> world" where
  "get_object w key =
     ((case objects w key of
         Missing \<Rightarrow> Inl (ClientError ''NoSuchKey'' ''The specified key does not exist.'')
       | Holds d \<Rightarrow> Inr d
       | Broken e \<Rightarrow> Inl e),
      w\<lparr>calls := calls w @ [GetObject key]\<rparr>)"

text \<open>\<^verbatim>\<open>conversation_file.exists()\<close>\<close>

definition file_exists :: "world \<Rightarrow> string \<Rightarrow> bool \<times> world" where
  "file_exists w path =
     ((case objects w path of Missing \<Rightarrow> False | _ \<Rightarrow> True),
      w\<lparr>calls := calls w @ [PathExists path]\<rparr>)"

text \<open>\<^verbatim>\<open>open(path, "r")\<close> followed by \<^verbatim>\<open>json.load\<close>.\<close>

definition json_load :: "world \<Rightarrow> string \<Rightarrow> (exn + conversation_data) \<times> world" where
  "json_load w path =
     ((case objects w path of
         Missing \<Rightarrow> Inl (OtherError ''FileNotFoundError'')
       | Holds d \<Rightarrow> Inr d
       | Broken e \<Rightarrow> Inl e),
      w\<lparr>calls := calls w @ [OpenRead path]\<rparr>)"

text \<open>
  Lines 92 to 98: the document is serialized and encoded, then \<^verbatim>\<open>put_object\<close>
  replaces the whole object. A fault of either step leaves the object as it was.
\<close>

definition put_object :: "world \<Rightarrow> string \<Rightarrow> conversation_data \<Rightarrow> (exn + unit) \<times> world" where
  "put_object w key d =
     (case write_fault w key of
        Some (EncodeFault e) \<Rightarrow> (Inl e, w)
      | Some (StoreFault e) \<Rightarrow> (Inl e, w\<lparr>calls := calls w @ [PutObject key]\<rparr>)
      | None \<Rightarrow>
          (Inr (), w\<lparr>calls := calls w @ [PutObject key],
                     objects := (objects w)(key := Holds d)\<rparr>))"

text \<open>
  Lines 101 and 102: \<^verbatim>\<open>open(path, "w")\<close> empties the file, then \<^verbatim>\<open>json.dump\<close>
  writes the document into it. When \<^verbatim>\<open>open\<close> raises, the file is as it was; when
  \<^verbatim>\<open>json.dump\<close> raises, the file is left with part of a document, which
  \<^verbatim>\<open>json.load\<close> cannot read.
\<close>

definition write_file :: "world \<Rightarrow> string \<Rightarrow> conversation_data \<Rightarrow> (exn + unit) \<times> world" where
  "write_file w path d =
     (case write_fault w path of
        Some (StoreFault e) \<Rightarrow> (Inl e, w\<lparr>calls := calls w @ [OpenWrite path]\<rparr>)
      | Some (EncodeFault e) \<Rightarrow>
          (Inl e, w\<lparr>calls := calls w @ [OpenWrite path],
                    objects := (objects w)(path := Broken (OtherError ''JSONDecodeError''))\<rparr>)
      | None \<Rightarrow>
          (Inr (), w\<lparr>calls := calls w @ [OpenWrite path],
                     objects := (objects w)(path := Holds d)\<rparr>))"

section \<open>The manager's methods\<close>

definition fresh_conversation :: "string \<Rightarrow> string \<Rightarrow> conversation_data" where
  "fresh_conversation cid now =
     \<lparr>conversation_id = Some cid, created_at = Some now, updated_at = None,
      messages = Some []\<rparr>"

text \<open>\<^verbatim>\<open>_load_from_storage\<close> (lines 58 to 86).\<close>

definition load_from_storage :: "world \<Rightarrow> string \<Rightarrow> (exn + conversation_data) \<times> world" where
  "load_from_storage w cid =
     (if use_s3 w then
        (let (response, w1) = get_object w (get_s3_key cid) in
         case response of
           Inr d \<Rightarrow> (Inr d, w1)
         | Inl (ClientError error_code text) \<Rightarrow>
             (if error_code = ''NoSuchKey'' then
                (let (now, w2) = utcnow w1 in (Inr (fresh_conversation cid now), w2))
              else
                (Inl (Exception (''Error loading conversation from S3: '' @ text)), w1))
         | Inl e \<Rightarrow> (Inl e, w1))
      else
        (let (found, w1) = file_exists w (get_conversation_file w cid) in
         if found then
           (let (loaded, w2) = json_load w1 (get_conversation_file w cid) in
            case loaded of
              Inr d \<Rightarrow> (Inr d, w2)
            | Inl e \<Rightarrow> (Inl e, w2))
         else
           (let (now, w2) = utcnow w1 in (Inr (fresh_conversation cid now), w2))))"

text \<open>\<^verbatim>\<open>_save_to_storage\<close> (lines 88 to 102).\<close>

definition save_to_storage :: "world \<Rightarrow> string \<Rightarrow> conversation_data \<Rightarrow> (exn + unit) \<times> world" where
  "save_to_storage w cid d =
     (if use_s3 w then put_object w (get_s3_key cid) d
      else write_file w (get_conversation_file w cid) d)"

text \<open>\<^verbatim>\<open>conversation_data.get("messages", [])\<close>\<close>

definition get_messages :: "conversation_data \<Rightarrow> message list" where
  "get_messages d = (case messages d of None \<Rightarrow> [] | Some ms \<Rightarrow> ms)"

text \<open>Lines 129 and 130: the role and the content read from a history entry.\<close>

fun entry_role :: "history_entry \<Rightarrow> pyval" where
  "entry_role (DictEntry r c) = dict_get_default r (PyStr [])"
| "entry_role (ObjEntry r c) = PyStr r"

fun entry_content :: "history_entry \<Rightarrow> pyval" where
  "entry_content (DictEntry r c) = dict_get_default c (PyStr [])"
| "entry_content (ObjEntry r c) = PyStr c"

definition new_message :: "pyval \<Rightarrow> pyval \<Rightarrow> string \<Rightarrow> message" where
  "new_message r c now = \<lparr>role = Some r, content = Some c, timestamp = Some (PyStr now)\<rparr>"

text \<open>
  The test of lines 132 to 135:
  \<^verbatim>\<open>any(m.get("role") == role and m.get("content") == content for m in messages)\<close>.
\<close>

definition already_in :: "message list \<Rightarrow> pyval \<Rightarrow> pyval \<Rightarrow> bool" where
  "already_in msgs r c = list_ex (\<lambda>m. dict_get (role m) = r \<and> dict_get (content m) = c) msgs"

text \<open>The loop of lines 128 to 142 over the history entries.\<close>

fun merge_history :: "message list \<Rightarrow> history_entry list \<Rightarrow> world \<Rightarrow> message list \<times> world" where
  "merge_history msgs [] w = (msgs, w)"
| "merge_history msgs (msg # rest) w =
     (if already_in msgs (entry_role msg) (entry_content msg) then merge_history msgs rest w
      else (let (now, w') = utcnow w
            in merge_history (msgs @ [new_message (entry_role msg) (entry_content msg) now]) rest w'))"

text \<open>
  \<^verbatim>\<open>save_interaction\<close> (lines 104 to 167). \<^verbatim>\<open>if conversation_history:\<close> skips the
  loop for \<^verbatim>\<open>None\<close> and for the empty list.
\<close>

definition save_interaction ::
  "world \<Rightarrow> string \<Rightarrow> string \<Rightarrow> string \<Rightarrow> history_entry list option \<Rightarrow> (exn + unit) \<times> world" where
  "save_interaction w cid question answer conversation_history =
     (case load_from_storage w cid of
        (Inl e, w0) \<Rightarrow> (Inl e, w0)
      | (Inr d, w0) \<Rightarrow>
          (let (m1, w1) = (case conversation_history of
                             None \<Rightarrow> (get_messages d, w0)
                           | Some [] \<Rightarrow> (get_messages d, w0)
                           | Some h \<Rightarrow> merge_history (get_messages d) h w0);
               (tq, w2) = utcnow w1;
               m2 = m1 @ [new_message (PyStr ''user'') (PyStr question) tq];
               (ta, w3) = utcnow w2;
               m3 = m2 @ [new_message (PyStr ''assistant'') (PyStr answer) ta];
               (tu, w4) = utcnow w3
           in save_to_storage w4 cid (d\<lparr>messages := Some m3, updated_at := Some tu\<rparr>)))"

text \<open>\<^verbatim>\<open>str.lower\<close> on ASCII letters, and the method call on a Python value.\<close>

definition lower_char :: "char \<Rightarrow> char" where
  "lower_char c =
     (if 65 \<le> (of_char c :: nat) \<and> (of_char c :: nat) \<le> 90
      then char_of ((of_char c :: nat) + 32) else c)"

definition lower :: "string \<Rightarrow> string" where
  "lower s = map lower_char s"







section \<open>Notions used to state the properties\<close>

text \<open>
  The (role, content) pair of a stored message, a missing key counting as
  \<^verbatim>\<open>None\<close>.
\<close>

definition stored_key :: "message \<Rightarrow> pyval \<times> pyval" where
  "stored_key m =
     ((case role m of None \<Rightarrow> PyNone | Some v \<Rightarrow> v),
      (case content m of None \<Rightarrow> PyNone | Some v \<Rightarrow> v))"

text \<open>
  The (role, content) pair of an entry of the imported history: the values of a
  dictionary, a missing key counting as the empty string, or the attributes of an
  object.
\<close>

fun entry_key :: "history_entry \<Rightarrow> pyval \<times> pyval" where
  "entry_key (DictEntry r c) =
     ((case r of None \<Rightarrow> PyStr [] | Some v \<Rightarrow> v),
      (case c of None \<Rightarrow> PyStr [] | Some v \<Rightarrow> v))"
| "entry_key (ObjEntry r c) = (PyStr r, PyStr c)"

text \<open>
  A list without its repetitions: of equal elements the first one stays, and the order
  of the list is kept.
\<close>

definition first_occurrences :: "'a list \<Rightarrow> 'a list" where
  "first_occurrences ks = rev (remdups (rev ks))"

text \<open>
  The merged history as the specification words it: the entries of the imported history
  in their given order, each pair once, without the pairs that a message of the
  transcript already has.
\<close>

definition fresh_keys :: "message list \<Rightarrow> history_entry list \<Rightarrow> (pyval \<times> pyval) list" where
  "fresh_keys prior h =
     filter (\<lambda>k. k \<notin> set (map stored_key prior)) (first_occurrences (map entry_key h))"

text \<open>
  Messages for a list of pairs, the \<open>i\<close>-th one stamped with reading \<open>n + i\<close> of the clock.
\<close>

definition stamp :: "(nat \<Rightarrow> string) \<Rightarrow> nat \<Rightarrow> (pyval \<times> pyval) list \<Rightarrow> message list" where
  "stamp clk n ks =
     map (\<lambda>(i, k). \<lparr>role = Some (fst k), content = Some (snd k), timestamp = Some (PyStr (clk i))\<rparr>)
       (enumerate n ks)"

text \<open>
  The entries of the optional \<^verbatim>\<open>conversation_history\<close> argument.
\<close>

definition history_list :: "history_entry list option \<Rightarrow> history_entry list" where
  "history_list h = (case h of None \<Rightarrow> [] | Some es \<Rightarrow> es)"

text \<open>
  The key under which the backend in use keeps a conversation.
\<close>

definition storage_key :: "world \<Rightarrow> string \<Rightarrow> string" where
  "storage_key w cid = (if use_s3 w then get_s3_key cid else get_conversation_file w cid)"

text \<open>
  The document that the backend holds for a conversation, if it holds a readable one.
\<close>

definition stored :: "world \<Rightarrow> string \<Rightarrow> conversation_data option" where
  "stored w cid = (case objects w (storage_key w cid) of Holds d \<Rightarrow> Some d | _ \<Rightarrow> None)"

text \<open>
  The exception that a fault of a write raises.
\<close>

fun raised_by :: "fault \<Rightarrow> exn" where
  "raised_by (StoreFault e) = e"
| "raised_by (EncodeFault e) = e"

text \<open>
  The call by which the backend in use writes a conversation.
\<close>

definition write_call :: "world \<Rightarrow> string \<Rightarrow> backend_call" where
  "write_call w cid =
     (if use_s3 w then PutObject (get_s3_key cid) else OpenWrite (get_conversation_file w cid))"

text \<open>
  The message list that a call writes back, from the loaded messages \<open>prior\<close>, the
  imported history \<open>h\<close> and the clock reading \<open>t\<close> at which the merge starts.
\<close>

definition saved_messages ::
  "(nat \<Rightarrow> string) \<Rightarrow> nat \<Rightarrow> message list \<Rightarrow> history_entry list \<Rightarrow> string \<Rightarrow> string \<Rightarrow> message list" where
  "saved_messages clk t prior h question answer =
     prior @ stamp clk t (fresh_keys prior h) @
       [new_message (PyStr ''user'') (PyStr question) (clk (t + length (fresh_keys prior h))),
        new_message (PyStr ''assistant'') (PyStr answer) (clk (t + length (fresh_keys prior h) + 1))]"

text \<open>
  The \<open>messages\<close> entry of the document held for a conversation.
\<close>

definition stored_messages :: "world \<Rightarrow> string \<Rightarrow> message list option" where
  "stored_messages w cid = (case stored w cid of None \<Rightarrow> None | Some d \<Rightarrow> messages d)"

text \<open>
  The calls of one read of a conversation that the backend holds: one
  \<^verbatim>\<open>get_object\<close>, or one \<^verbatim>\<open>exists\<close> and one \<^verbatim>\<open>open\<close>.
\<close>

definition read_calls :: "world \<Rightarrow> string \<Rightarrow> backend_call list" where
  "read_calls w cid =
     (if use_s3 w then [GetObject (get_s3_key cid)]
      else [PathExists (get_conversation_file w cid), OpenRead (get_conversation_file w cid)])"

text \<open>
  The key of a conversation is absent: the object store answers \<open>get_object\<close> with a
  \<open>ClientError\<close> whose code is \<open>NoSuchKey\<close>, or the local file does not exist.
\<close>

definition key_absent :: "world \<Rightarrow> string \<Rightarrow> bool" where
  "key_absent w cid =
     (if use_s3 w then
        (case fst (get_object w (get_s3_key cid)) of
           Inl (ClientError error_code text) \<Rightarrow> error_code = ''NoSuchKey''
         | _ \<Rightarrow> False)
      else \<not> fst (file_exists w (get_conversation_file w cid)))"

text \<open>
  The error by which the object store reports a missing key.
\<close>

definition is_no_such_key :: "exn \<Rightarrow> bool" where
  "is_no_such_key e =
     (case e of ClientError error_code text \<Rightarrow> error_code = ''NoSuchKey'' | _ \<Rightarrow> False)"

text \<open>
  The fault, other than a missing key, that the read of a conversation meets.
\<close>

definition read_fault :: "world \<Rightarrow> string \<Rightarrow> exn option" where
  "read_fault w cid =
     (if use_s3 w then
        (case fst (get_object w (get_s3_key cid)) of
           Inl e \<Rightarrow> if is_no_such_key e then None else Some e
         | Inr d \<Rightarrow> None)
      else if fst (file_exists w (get_conversation_file w cid)) then
        (case fst (json_load w (get_conversation_file w cid)) of
           Inl e \<Rightarrow> Some e
         | Inr d \<Rightarrow> None)
      else None)"






section \<open>Example environments\<close>

text \<open>
  A clock for the examples: one second per reading.
\<close>

definition example_clock :: "nat \<Rightarrow> string" where
  "example_clock n =
     (if n = 0 then ''2024-01-01T00:00:00'' else if n = 1 then ''2024-01-01T00:00:01''
      else if n = 2 then ''2024-01-01T00:00:02'' else if n = 3 then ''2024-01-01T00:00:03''
      else if n = 4 then ''2024-01-01T00:00:04'' else if n = 5 then ''2024-01-01T00:00:05''
      else if n = 6 then ''2024-01-01T00:00:06'' else ''2024-01-01T00:00:07'')"

text \<open>
  A backend that holds nothing and whose writes succeed.
\<close>

definition empty_world :: "bool \<Rightarrow> world" where
  "empty_world s3 =
     \<lparr>use_s3 = s3, file_of = (\<lambda>name. name), objects = (\<lambda>k. Missing),
      write_fault = (\<lambda>k. None), clock = example_clock, ticks = 0, calls = []\<rparr>"

text \<open>
  The transcript of the merge example of the specification: "hi" and "hello".
\<close>

definition hi_conversation :: conversation_data where
  "hi_conversation =
     \<lparr>conversation_id = Some ''c1'', created_at = Some ''2023-12-31T23:59:57'',
      updated_at = Some ''2023-12-31T23:59:59'',
      messages = Some
        [\<lparr>role = Some (PyStr ''user''), content = Some (PyStr ''hi''),
           timestamp = Some (PyStr ''2023-12-31T23:59:58'')\<rparr>,
         \<lparr>role = Some (PyStr ''assistant''), content = Some (PyStr ''hello''),
           timestamp = Some (PyStr ''2023-12-31T23:59:59'')\<rparr>]\<rparr>"

text \<open>
  A backend that holds the document \<open>d\<close> for the conversation \<open>c1\<close>.
\<close>

definition holding_world :: "bool \<Rightarrow> conversation_data \<Rightarrow> world" where
  "holding_world s3 d =
     \<lparr>use_s3 = s3, file_of = (\<lambda>name. name),
      objects = (\<lambda>k. if k = ''c1.json'' then Holds d else Missing),
      write_fault = (\<lambda>k. None), clock = example_clock, ticks = 0, calls = []\<rparr>"

text \<open>
  The same two turns, sent again as imported history.
\<close>

definition hi_history :: "history_entry list" where
  "hi_history =
     [DictEntry (Some (PyStr ''user'')) (Some (PyStr ''hi'')),
      DictEntry (Some (PyStr ''assistant'')) (Some (PyStr ''hello''))]"

text \<open>
  An imported history that repeats an entry, once as a dictionary and once as an object.
\<close>

definition repeated_history :: "history_entry list" where
  "repeated_history =
     [DictEntry (Some (PyStr ''user'')) (Some (PyStr ''hi'')),
      ObjEntry ''user'' ''hi'',
      DictEntry (Some (PyStr ''assistant'')) (Some (PyStr ''hello'')),
      DictEntry (Some (PyStr ''user'')) (Some (PyStr ''hi''))]"

text \<open>
  A backend whose read of the conversation \<open>c1\<close> raises \<open>e\<close>.
\<close>

definition broken_world :: "bool \<Rightarrow> exn \<Rightarrow> world" where
  "broken_world s3 e =
     \<lparr>use_s3 = s3, file_of = (\<lambda>name. name),
      objects = (\<lambda>k. if k = ''c1.json'' then Broken e else Missing),
      write_fault = (\<lambda>k. None), clock = example_clock, ticks = 0, calls = []\<rparr>"

text \<open>
  An imported entry that differs from the stored "hi" only in the letter case of its role.
\<close>

definition capital_history :: "history_entry list" where
  "capital_history = [DictEntry (Some (PyStr ''User'')) (Some (PyStr ''hi''))]"



section \<open>Properties\<close>

lemma remdups_snoc: "remdups (xs @ [k]) = filter (\<lambda>x. x \<noteq> k) (remdups xs) @ [k]"
  by (induction xs) auto

lemma first_occurrences_Nil: "first_occurrences [] = []"
  by (simp add: first_occurrences_def)

lemma first_occurrences_Cons:
  "first_occurrences (k # ks) = k # filter (\<lambda>x. x \<noteq> k) (first_occurrences ks)"
  by (simp add: first_occurrences_def remdups_snoc rev_filter)

lemma stored_key_eq: "stored_key m = (dict_get (role m), dict_get (content m))"
  by (simp add: stored_key_def dict_get_def)

lemma entry_key_eq: "entry_key e = (entry_role e, entry_content e)"
  by (cases e) (simp_all add: dict_get_default_def)

lemma already_in_iff: "already_in msgs r c \<longleftrightarrow> (r, c) \<in> set (map stored_key msgs)"
  by (auto simp: already_in_def stored_key_def dict_get_def list_ex_iff)

lemma stored_key_new_message: "stored_key (new_message r c t) = (r, c)"
  by (simp add: stored_key_def new_message_def)

lemma fresh_keys_Nil: "fresh_keys prior [] = []"
  by (simp add: fresh_keys_def first_occurrences_Nil)

lemma fresh_keys_seen:
  "entry_key e \<in> set (map stored_key prior) \<Longrightarrow> fresh_keys prior (e # h) = fresh_keys prior h"
  by (auto simp: fresh_keys_def first_occurrences_Cons intro: filter_cong)

lemma fresh_keys_new:
  "entry_key e \<notin> set (map stored_key prior) \<Longrightarrow>
   fresh_keys prior (e # h) = entry_key e # fresh_keys (prior @ [new_message (entry_role e) (entry_content e) t]) h"
  by (auto simp: fresh_keys_def first_occurrences_Cons stored_key_new_message entry_key_eq intro: filter_cong)

lemma stamp_Nil: "stamp clk n [] = []"
  by (simp add: stamp_def)

lemma stamp_Cons: "stamp clk n (k # ks) = new_message (fst k) (snd k) (clk n) # stamp clk (Suc n) ks"
  by (simp add: stamp_def new_message_def)

lemma merge_history_eq:
  "merge_history msgs h w =
     (msgs @ stamp (clock w) (ticks w) (fresh_keys msgs h),
      w\<lparr>ticks := ticks w + length (fresh_keys msgs h)\<rparr>)"
proof (induction h arbitrary: msgs w)
  case Nil
  show ?case by (simp add: fresh_keys_Nil stamp_Nil)
next
  case (Cons e h)
  show ?case
  proof (cases "already_in msgs (entry_role e) (entry_content e)")
    case True
    then have "entry_key e \<in> set (map stored_key msgs)"
      by (simp add: already_in_iff entry_key_eq)
    then show ?thesis using True Cons.IH [of msgs w]
      by (simp add: fresh_keys_seen)
  next
    case False
    then have nk: "entry_key e \<notin> set (map stored_key msgs)"
      by (simp add: already_in_iff entry_key_eq)
    let ?m = "new_message (entry_role e) (entry_content e) (clock w (ticks w))"
    have fk: "fresh_keys msgs (e # h) = entry_key e # fresh_keys (msgs @ [?m]) h"
      by (rule fresh_keys_new [OF nk])
    show ?thesis using False Cons.IH [of "msgs @ [?m]" "w\<lparr>ticks := Suc (ticks w)\<rparr>"]
      by (simp add: fk utcnow_def stamp_Cons entry_key_eq)
  qed
qed

lemma load_from_storage_frame:
  assumes "load_from_storage w cid = (r, w0)"
  shows "use_s3 w0 = use_s3 w \<and> file_of w0 = file_of w \<and> objects w0 = objects w
         \<and> write_fault w0 = write_fault w \<and> clock w0 = clock w \<and> ticks w \<le> ticks w0"
  using assms
  by (auto simp: load_from_storage_def utcnow_def get_object_def file_exists_def json_load_def
      split: if_splits sum.splits exn.splits)

lemma merge_step:
  "(case h of None \<Rightarrow> (msgs, w) | Some [] \<Rightarrow> (msgs, w) | Some es \<Rightarrow> merge_history msgs es w) =
   (msgs @ stamp (clock w) (ticks w) (fresh_keys msgs (history_list h)),
    w\<lparr>ticks := ticks w + length (fresh_keys msgs (history_list h))\<rparr>)"
  by (simp add: history_list_def merge_history_eq fresh_keys_Nil stamp_Nil split: option.splits list.splits)

lemma storage_key_frame:
  "use_s3 w' = use_s3 w \<Longrightarrow> file_of w' = file_of w \<Longrightarrow> storage_key w' cid = storage_key w cid"
  by (simp add: storage_key_def get_conversation_file_def)

lemma write_call_frame:
  "use_s3 w' = use_s3 w \<Longrightarrow> file_of w' = file_of w \<Longrightarrow> write_call w' cid = write_call w cid"
  by (simp add: write_call_def get_conversation_file_def)

lemma save_to_storage_ok:
  assumes "write_fault w (storage_key w cid) = None"
  shows "save_to_storage w cid d =
     (Inr (), w\<lparr>calls := calls w @ [write_call w cid],
                objects := (objects w)(storage_key w cid := Holds d)\<rparr>)"
  using assms
  by (cases "use_s3 w")
    (simp_all add: save_to_storage_def storage_key_def write_call_def put_object_def write_file_def)

lemma save_to_storage_fault:
  assumes "write_fault w (storage_key w cid) = Some f"
  shows "fst (save_to_storage w cid d) = Inl (raised_by f)"
  using assms
  by (cases "use_s3 w"; cases f)
    (simp_all add: save_to_storage_def storage_key_def put_object_def write_file_def)

lemma save_interaction_unfold:
  assumes ld: "load_from_storage w cid = (Inr d, w0)"
  shows "save_interaction w cid question answer h =
     save_to_storage
       (w0\<lparr>ticks := ticks w0 + length (fresh_keys (get_messages d) (history_list h)) + 3\<rparr>) cid
       (d\<lparr>messages := Some (saved_messages (clock w0) (ticks w0) (get_messages d)
                                        (history_list h) question answer),
          updated_at := Some (clock w0 (ticks w0 + length (fresh_keys (get_messages d) (history_list h)) + 2))\<rparr>)"
  unfolding save_interaction_def ld
  by (simp add: merge_step utcnow_def saved_messages_def Let_def eval_nat_numeral)

lemma save_interaction_success:
  assumes ld: "load_from_storage w cid = (Inr d, w0)"
    and wr: "write_fault w (storage_key w cid) = None"
  shows "save_interaction w cid question answer h =
     (Inr (),
      w0\<lparr>ticks := ticks w0 + length (fresh_keys (get_messages d) (history_list h)) + 3,
         calls := calls w0 @ [write_call w cid],
         objects := (objects w0)(storage_key w cid :=
           Holds (d\<lparr>messages := Some (saved_messages (clock w) (ticks w0) (get_messages d)
                                        (history_list h) question answer),
                    updated_at := Some (clock w (ticks w0 + length (fresh_keys (get_messages d) (history_list h)) + 2))\<rparr>))\<rparr>)"
proof -
  from load_from_storage_frame [OF ld]
  have fr: "use_s3 w0 = use_s3 w" "file_of w0 = file_of w" "write_fault w0 = write_fault w"
    "clock w0 = clock w"
    by simp_all
  let ?w4 = "w0\<lparr>ticks := ticks w0 + length (fresh_keys (get_messages d) (history_list h)) + 3\<rparr>"
  have k: "storage_key ?w4 cid = storage_key w cid"
    by (rule storage_key_frame) (simp_all add: fr)
  have c: "write_call ?w4 cid = write_call w cid"
    by (rule write_call_frame) (simp_all add: fr)
  have f: "write_fault ?w4 (storage_key ?w4 cid) = None"
    unfolding k using wr by (simp add: fr)
  show ?thesis
    unfolding save_interaction_unfold [OF ld] save_to_storage_ok [OF f] k c
    by (simp add: fr)
qed

lemma save_interaction_failure:
  assumes ld: "load_from_storage w cid = (Inr d, w0)"
    and wr: "write_fault w (storage_key w cid) = Some f"
  shows "fst (save_interaction w cid question answer h) = Inl (raised_by f)"
proof -
  from load_from_storage_frame [OF ld]
  have fr: "use_s3 w0 = use_s3 w" "file_of w0 = file_of w" "write_fault w0 = write_fault w"
    by simp_all
  let ?w4 = "w0\<lparr>ticks := ticks w0 + length (fresh_keys (get_messages d) (history_list h)) + 3\<rparr>"
  have k: "storage_key ?w4 cid = storage_key w cid"
    by (rule storage_key_frame) (simp_all add: fr)
  have f: "write_fault ?w4 (storage_key ?w4 cid) = Some f"
    unfolding k using wr by (simp add: fr)
  show ?thesis
    unfolding save_interaction_unfold [OF ld]
    by (rule save_to_storage_fault [OF f])
qed

lemma stored_after_save:
  assumes ld: "load_from_storage w cid = (Inr d, w0)"
    and wr: "write_fault w (storage_key w cid) = None"
  shows "stored (snd (save_interaction w cid question answer h)) cid =
     Some (d\<lparr>messages := Some (saved_messages (clock w) (ticks w0) (get_messages d)
                                        (history_list h) question answer),
             updated_at := Some (clock w (ticks w0 + length (fresh_keys (get_messages d) (history_list h)) + 2))\<rparr>)"
proof -
  from load_from_storage_frame [OF ld]
  have fr: "use_s3 w0 = use_s3 w" "file_of w0 = file_of w" by simp_all
  let ?w5 = "snd (save_interaction w cid question answer h)"
  have u: "use_s3 ?w5 = use_s3 w" "file_of ?w5 = file_of w"
    by (simp_all add: save_interaction_success [OF ld wr] fr)
  have k: "storage_key ?w5 cid = storage_key w cid"
    by (rule storage_key_frame [OF u])
  show ?thesis
    unfolding stored_def k
    by (simp add: save_interaction_success [OF ld wr])
qed

lemma stored_messages_after_save:
  assumes ld: "load_from_storage w cid = (Inr d, w0)"
    and wr: "write_fault w (storage_key w cid) = None"
  shows "stored_messages (snd (save_interaction w cid question answer h)) cid =
     Some (saved_messages (clock w) (ticks w0) (get_messages d) (history_list h) question answer)"
  by (simp add: stored_messages_def stored_after_save [OF ld wr])

lemma example_clock_values:
  "example_clock 0 = ''2024-01-01T00:00:00''"
  "example_clock (Suc 0) = ''2024-01-01T00:00:01''"
  "example_clock 1 = ''2024-01-01T00:00:01''"
  "example_clock 2 = ''2024-01-01T00:00:02''"
  "example_clock 3 = ''2024-01-01T00:00:03''"
  "example_clock 4 = ''2024-01-01T00:00:04''"
  "example_clock 5 = ''2024-01-01T00:00:05''"
  "example_clock 6 = ''2024-01-01T00:00:06''"
  by (simp_all add: example_clock_def)

lemma load_empty_local:
  "load_from_storage (empty_world False) ''c1'' =
     (Inr (fresh_conversation ''c1'' ''2024-01-01T00:00:00''),
      (empty_world False)\<lparr>ticks := 1, calls := [PathExists ''c1.json'']\<rparr>)"
  by (simp add: load_from_storage_def empty_world_def file_exists_def utcnow_def
      get_conversation_file_def example_clock_values)

lemma load_empty_s3:
  "load_from_storage (empty_world True) ''c1'' =
     (Inr (fresh_conversation ''c1'' ''2024-01-01T00:00:00''),
      (empty_world True)\<lparr>ticks := 1, calls := [GetObject ''c1.json'']\<rparr>)"
  by (simp add: load_from_storage_def empty_world_def get_object_def utcnow_def
      get_s3_key_def example_clock_values)

lemma map_stored_key_stamp: "map stored_key (stamp clk n ks) = ks"
  by (induction ks arbitrary: n) (simp_all add: stamp_Nil stamp_Cons stored_key_new_message)

lemma length_stamp: "length (stamp clk n ks) = length ks"
  by (simp add: stamp_def)

lemma set_first_occurrences: "set (first_occurrences ks) = set ks"
  by (simp add: first_occurrences_def)

lemma distinct_first_occurrences: "distinct (first_occurrences ks)"
  by (simp add: first_occurrences_def)

lemma set_fresh_keys:
  "set (fresh_keys prior h) = set (map entry_key h) - set (map stored_key prior)"
  by (auto simp: fresh_keys_def set_first_occurrences)

lemma distinct_fresh_keys: "distinct (fresh_keys prior h)"
  by (simp add: fresh_keys_def distinct_first_occurrences)

lemma fresh_keys_all_seen:
  "set (map entry_key h) \<subseteq> set (map stored_key prior) \<Longrightarrow> fresh_keys prior h = []"
proof -
  assume "set (map entry_key h) \<subseteq> set (map stored_key prior)"
  then have "set (fresh_keys prior h) = {}"
    unfolding set_fresh_keys by blast
  then show ?thesis by simp
qed

lemma stamp_role_content:
  assumes "m \<in> set (stamp clk n ks)"
  shows "\<exists>k\<in>set ks. role m = Some (fst k) \<and> content m = Some (snd k)"
  using assms
  by (induction ks arbitrary: n) (auto simp: stamp_Nil stamp_Cons new_message_def)

lemma write_ok_of_success:
  assumes ld: "load_from_storage w cid = (Inr d, w0)"
    and ok: "save_interaction w cid question answer h = (Inr (), w')"
  shows "write_fault w (storage_key w cid) = None"
proof (cases "write_fault w (storage_key w cid)")
  case None
  then show ?thesis .
next
  case (Some f)
  from save_interaction_failure [OF ld Some, of question answer h] ok
  show ?thesis by simp
qed

lemma load_holds:
  assumes "objects w (storage_key w cid) = Holds d"
  shows "load_from_storage w cid = (Inr d, w\<lparr>calls := calls w @ read_calls w cid\<rparr>)"
  using assms
  by (cases "use_s3 w")
    (simp_all add: load_from_storage_def storage_key_def get_object_def file_exists_def
      json_load_def read_calls_def get_conversation_file_def)

lemma save_interaction_load_failure:
  assumes "load_from_storage w cid = (Inl e, w0)"
  shows "save_interaction w cid question answer h = (Inl e, w0)"
  by (simp add: save_interaction_def assms)

lemma save_interaction_succeeds_iff:
  "fst (save_interaction w cid question answer h) = Inr () \<longleftrightarrow>
     (\<exists>d w0. load_from_storage w cid = (Inr d, w0)) \<and> write_fault w (storage_key w cid) = None"
proof (cases "load_from_storage w cid")
  case (Pair r w0)
  show ?thesis
  proof (cases r)
    case (Inl e)
    with Pair show ?thesis
      by (simp add: save_interaction_load_failure)
  next
    case (Inr d)
    with Pair have ld: "load_from_storage w cid = (Inr d, w0)" by simp
    show ?thesis
    proof (cases "write_fault w (storage_key w cid)")
      case None
      with ld show ?thesis by (simp add: save_interaction_success [OF ld None])
    next
      case (Some f)
      with ld show ?thesis by (simp add: save_interaction_failure [OF ld Some])
    qed
  qed
qed

lemma load_held_local:
  "load_from_storage (holding_world False d) ''c1'' =
     (Inr d, (holding_world False d)\<lparr>calls := [PathExists ''c1.json'', OpenRead ''c1.json'']\<rparr>)"
  by (simp add: load_from_storage_def holding_world_def file_exists_def json_load_def
      get_conversation_file_def)

lemma load_held_s3:
  "load_from_storage (holding_world True d) ''c1'' =
     (Inr d, (holding_world True d)\<lparr>calls := [GetObject ''c1.json'']\<rparr>)"
  by (simp add: load_from_storage_def holding_world_def get_object_def get_s3_key_def)

lemma write_holding_world:
  "write_fault (holding_world s3 d) (storage_key (holding_world s3 d) ''c1'') = None"
  by (simp add: holding_world_def)

lemma saved_shape:
  assumes ld: "load_from_storage w cid = (Inr d, w0)"
    and wr: "write_fault w (storage_key w cid) = None"
  shows "\<exists>tq ta. stored_messages (snd (save_interaction w cid question answer h)) cid =
      Some (get_messages d @ stamp (clock w) (ticks w0) (fresh_keys (get_messages d) (history_list h)) @
            [new_message (PyStr ''user'') (PyStr question) tq,
             new_message (PyStr ''assistant'') (PyStr answer) ta])"
  unfolding stored_messages_after_save [OF ld wr] saved_messages_def
  by blast

text \<open>
  Claim C2. Every message that \<open>save_interaction\<close> appends from the imported history
  comes from an entry of that history and has a (role, content) pair that no message of
  the loaded transcript has; when every imported entry is already in the transcript,
  nothing is appended from the history, so the transcript grows by the question and the
  answer only (four messages for the transcript holding "hi" and "hello").
\<close>

theorem merge_skips_existing_pairs:
  assumes ld: "load_from_storage w cid = (Inr d, w0)"
    and wr: "write_fault w (storage_key w cid) = None"
  shows "\<exists>new tq ta.
     stored_messages (snd (save_interaction w cid question answer h)) cid =
       Some (get_messages d @ new @
             [new_message (PyStr ''user'') (PyStr question) tq,
              new_message (PyStr ''assistant'') (PyStr answer) ta]) \<and>
     (\<forall>m\<in>set new. \<not> already_in (get_messages d) (dict_get (role m)) (dict_get (content m))) \<and>
     (\<forall>m\<in>set new. \<exists>e\<in>set (history_list h).
         role m = Some (entry_role e) \<and> content m = Some (entry_content e)) \<and>
     (list_all (\<lambda>e. already_in (get_messages d) (entry_role e) (entry_content e)) (history_list h)
        \<longrightarrow> new = [])"
proof -
  let ?ks = "fresh_keys (get_messages d) (history_list h)"
  let ?new = "stamp (clock w) (ticks w0) ?ks"
  from saved_shape [OF ld wr, of question answer h] obtain tq ta where
    s: "stored_messages (snd (save_interaction w cid question answer h)) cid =
      Some (get_messages d @ ?new @
            [new_message (PyStr ''user'') (PyStr question) tq,
             new_message (PyStr ''assistant'') (PyStr answer) ta])"
    by blast
  have a: "\<forall>m\<in>set ?new. \<not> already_in (get_messages d) (dict_get (role m)) (dict_get (content m))"
  proof
    fix m assume m: "m \<in> set ?new"
    then have "stored_key m \<in> set (map stored_key ?new)" by simp
    then have "stored_key m \<in> set ?ks" by (simp only: map_stored_key_stamp)
    then have "stored_key m \<notin> set (map stored_key (get_messages d))"
      by (simp add: set_fresh_keys)
    then show "\<not> already_in (get_messages d) (dict_get (role m)) (dict_get (content m))"
      by (simp add: already_in_iff stored_key_eq)
  qed
  have b: "\<forall>m\<in>set ?new. \<exists>e\<in>set (history_list h).
         role m = Some (entry_role e) \<and> content m = Some (entry_content e)"
  proof
    fix m assume "m \<in> set ?new"
    from stamp_role_content [OF this] obtain k where
      k: "k \<in> set ?ks" "role m = Some (fst k)" "content m = Some (snd k)" by blast
    from k(1) have "k \<in> set (map entry_key (history_list h))" by (simp add: set_fresh_keys)
    then obtain e where "e \<in> set (history_list h)" "k = entry_key e" by auto
    with k show "\<exists>e\<in>set (history_list h).
         role m = Some (entry_role e) \<and> content m = Some (entry_content e)"
      by (auto simp: entry_key_eq)
  qed
  have c: "list_all (\<lambda>e. already_in (get_messages d) (entry_role e) (entry_content e)) (history_list h)
        \<longrightarrow> ?new = []"
  proof
    assume "list_all (\<lambda>e. already_in (get_messages d) (entry_role e) (entry_content e)) (history_list h)"
    then have "set (map entry_key (history_list h)) \<subseteq> set (map stored_key (get_messages d))"
      by (auto simp: list_all_iff already_in_iff entry_key_eq)
    then have "?ks = []" by (rule fresh_keys_all_seen)
    then show "?new = []" by (simp add: stamp_Nil)
  qed
  from s a b c show ?thesis by blast
qed

theorem merge_skips_existing_pairs_witness:
  "load_from_storage (holding_world False hi_conversation) ''c1'' =
     (Inr hi_conversation, (holding_world False hi_conversation)\<lparr>calls := [PathExists ''c1.json'', OpenRead ''c1.json'']\<rparr>) \<and>
   write_fault (holding_world False hi_conversation)
     (storage_key (holding_world False hi_conversation) ''c1'') = None \<and>
   map_option (map stored_key)
     (stored_messages (snd (save_interaction (holding_world False hi_conversation) ''c1''
        ''how are you?'' ''fine'' (Some hi_history))) ''c1'') =
     Some [(PyStr ''user'', PyStr ''hi''), (PyStr ''assistant'', PyStr ''hello''),
           (PyStr ''user'', PyStr ''how are you?''), (PyStr ''assistant'', PyStr ''fine'')] \<and>
   map_option length
     (stored_messages (snd (save_interaction (holding_world False hi_conversation) ''c1''
        ''how are you?'' ''fine'' (Some hi_history))) ''c1'') = Some 4"
proof -
  let ?w = "holding_world False hi_conversation"
  have ld: "load_from_storage ?w ''c1'' = (Inr hi_conversation, ?w\<lparr>calls := [PathExists ''c1.json'', OpenRead ''c1.json'']\<rparr>)"
    by (rule load_held_local)
  have wr: "write_fault ?w (storage_key ?w ''c1'') = None"
    by (rule write_holding_world)
  have seen: "list_all (\<lambda>e. already_in (get_messages hi_conversation) (entry_role e) (entry_content e))
       (history_list (Some hi_history))"
    by (simp add: hi_conversation_def hi_history_def history_list_def get_messages_def
        already_in_def dict_get_def dict_get_default_def)
  from merge_skips_existing_pairs [OF ld wr, of "''how are you?''" "''fine''" "Some hi_history"] seen
  obtain tq ta where
    s: "stored_messages (snd (save_interaction ?w ''c1'' ''how are you?'' ''fine'' (Some hi_history))) ''c1'' =
       Some (get_messages hi_conversation @ [] @
             [new_message (PyStr ''user'') (PyStr ''how are you?'') tq,
              new_message (PyStr ''assistant'') (PyStr ''fine'') ta])"
    by blast
  have k: "map_option (map stored_key)
     (stored_messages (snd (save_interaction ?w ''c1'' ''how are you?'' ''fine'' (Some hi_history))) ''c1'') =
     Some [(PyStr ''user'', PyStr ''hi''), (PyStr ''assistant'', PyStr ''hello''),
           (PyStr ''user'', PyStr ''how are you?''), (PyStr ''assistant'', PyStr ''fine'')]"
    unfolding s
    by (simp add: hi_conversation_def get_messages_def stored_key_eq dict_get_def new_message_def)
  have l: "map_option length
     (stored_messages (snd (save_interaction ?w ''c1'' ''how are you?'' ''fine'' (Some hi_history))) ''c1'') = Some 4"
    unfolding s by (simp add: hi_conversation_def get_messages_def)
  from ld wr k l show ?thesis by (intro conjI)
qed

lemma distinct_nth_notin_take:
  assumes "distinct xs" and "i < length xs"
  shows "xs ! i \<notin> set (take i xs)"
proof
  assume "xs ! i \<in> set (take i xs)"
  then obtain j where j: "j < length (take i xs)" "take i xs ! j = xs ! i"
    by (auto simp: in_set_conv_nth)
  then have "j < i" "xs ! j = xs ! i" by simp_all
  with assms show False by (simp add: nth_eq_iff_index_eq)
qed

text \<open>
  Claim C10. The messages appended from the imported history in one call were each
  tested against the list as it had grown so far (the loaded messages and the ones
  appended before it), so no two of them share a (role, content) pair, and there are
  at most as many as the history has entries.
\<close>

theorem merge_collapses_repeated_entries:
  assumes ld: "load_from_storage w cid = (Inr d, w0)"
    and wr: "write_fault w (storage_key w cid) = None"
  shows "\<exists>new tq ta.
     stored_messages (snd (save_interaction w cid question answer h)) cid =
       Some (get_messages d @ new @
             [new_message (PyStr ''user'') (PyStr question) tq,
              new_message (PyStr ''assistant'') (PyStr answer) ta]) \<and>
     distinct (map stored_key new) \<and>
     length new \<le> length (history_list h) \<and>
     (\<forall>i<length new.
        \<not> already_in (get_messages d @ take i new)
             (dict_get (role (new ! i))) (dict_get (content (new ! i))))"
proof -
  let ?ks = "fresh_keys (get_messages d) (history_list h)"
  let ?new = "stamp (clock w) (ticks w0) ?ks"
  from saved_shape [OF ld wr, of question answer h] obtain tq ta where
    s: "stored_messages (snd (save_interaction w cid question answer h)) cid =
      Some (get_messages d @ ?new @
            [new_message (PyStr ''user'') (PyStr question) tq,
             new_message (PyStr ''assistant'') (PyStr answer) ta])"
    by blast
  have keys: "map stored_key ?new = ?ks" by (rule map_stored_key_stamp)
  have a: "distinct (map stored_key ?new)"
    unfolding keys by (rule distinct_fresh_keys)
  have "length ?ks \<le> length (first_occurrences (map entry_key (history_list h)))"
    unfolding fresh_keys_def by (rule length_filter_le)
  also have "\<dots> \<le> length (history_list h)"
    using length_remdups_leq [of "rev (map entry_key (history_list h))"]
    by (simp add: first_occurrences_def)
  finally have b: "length ?new \<le> length (history_list h)"
    by (simp add: length_stamp)
  have c: "\<forall>i<length ?new.
        \<not> already_in (get_messages d @ take i ?new)
             (dict_get (role (?new ! i))) (dict_get (content (?new ! i)))"
  proof (intro allI impI)
    fix i assume i: "i < length ?new"
    then have il: "i < length ?ks" by (simp add: length_stamp)
    have ki: "stored_key (?new ! i) = ?ks ! i"
      using keys i by (metis nth_map)
    have "?ks ! i \<in> set ?ks" using il by simp
    then have n1: "?ks ! i \<notin> set (map stored_key (get_messages d))"
      by (simp add: set_fresh_keys)
    have "map stored_key (take i ?new) = take i ?ks"
      using keys by (simp add: take_map [symmetric])
    moreover have "?ks ! i \<notin> set (take i ?ks)"
      by (rule distinct_nth_notin_take [OF distinct_fresh_keys il])
    ultimately have n2: "?ks ! i \<notin> set (map stored_key (take i ?new))" by simp
    from n1 n2 have "stored_key (?new ! i) \<notin> set (map stored_key (get_messages d @ take i ?new))"
      unfolding ki by simp
    then show "\<not> already_in (get_messages d @ take i ?new)
             (dict_get (role (?new ! i))) (dict_get (content (?new ! i)))"
      by (simp add: already_in_iff stored_key_eq)
  qed
  from s a b c show ?thesis by blast
qed

lemma fresh_keys_repeated:
  "fresh_keys [] repeated_history =
     [(PyStr ''user'', PyStr ''hi''), (PyStr ''assistant'', PyStr ''hello'')]"
  by (simp add: fresh_keys_def first_occurrences_def repeated_history_def entry_key_eq
      dict_get_default_def)

theorem merge_collapses_repeated_entries_witness:
  "load_from_storage (empty_world True) ''c1'' =
     (Inr (fresh_conversation ''c1'' ''2024-01-01T00:00:00''), (empty_world True)\<lparr>ticks := 1, calls := [GetObject ''c1.json'']\<rparr>) \<and>
   write_fault (empty_world True) (storage_key (empty_world True) ''c1'') = None \<and>
   length repeated_history = 4 \<and>
   map_option (map stored_key)
     (stored_messages (snd (save_interaction (empty_world True) ''c1'' ''how are you?'' ''fine''
        (Some repeated_history))) ''c1'') =
     Some [(PyStr ''user'', PyStr ''hi''), (PyStr ''assistant'', PyStr ''hello''),
           (PyStr ''user'', PyStr ''how are you?''), (PyStr ''assistant'', PyStr ''fine'')]"
proof -
  let ?w = "empty_world True"
  let ?d = "fresh_conversation ''c1'' ''2024-01-01T00:00:00''"
  let ?s = "stored_messages (snd (save_interaction ?w ''c1'' ''how are you?'' ''fine''
        (Some repeated_history))) ''c1''"
  have ld: "load_from_storage ?w ''c1'' = (Inr ?d, ?w\<lparr>ticks := 1, calls := [GetObject ''c1.json'']\<rparr>)"
    by (rule load_empty_s3)
  have wr: "write_fault ?w (storage_key ?w ''c1'') = None"
    by (simp add: empty_world_def)
  have g: "get_messages ?d = []"
    by (simp add: get_messages_def fresh_conversation_def)
  from merge_collapses_repeated_entries [OF ld wr, of "''how are you?''" "''fine''" "Some repeated_history"]
  obtain new tq ta where
    s: "?s = Some (get_messages ?d @ new @
             [new_message (PyStr ''user'') (PyStr ''how are you?'') tq,
              new_message (PyStr ''assistant'') (PyStr ''fine'') ta])"
    and dn: "distinct (map stored_key new)"
    by blast
  have s': "?s = Some (saved_messages (clock ?w) (ticks (?w\<lparr>ticks := 1, calls := [GetObject ''c1.json'']\<rparr>)) (get_messages ?d)
              (history_list (Some repeated_history)) ''how are you?'' ''fine'')"
    by (rule stored_messages_after_save [OF ld wr])
  have k: "map_option (map stored_key) ?s =
     Some [(PyStr ''user'', PyStr ''hi''), (PyStr ''assistant'', PyStr ''hello''),
           (PyStr ''user'', PyStr ''how are you?''), (PyStr ''assistant'', PyStr ''fine'')]"
    unfolding s'
    by (simp add: saved_messages_def g history_list_def fresh_keys_repeated map_stored_key_stamp
        stored_key_new_message)
  have l: "length repeated_history = 4" by (simp add: repeated_history_def)
  from ld wr l k dn show ?thesis by (intro conjI)
qed

lemma load_key_absent:
  assumes "key_absent w cid"
  shows "load_from_storage w cid =
     (Inr (fresh_conversation cid (clock w (ticks w))),
      w\<lparr>calls := calls w @ [if use_s3 w then GetObject (get_s3_key cid)
                                else PathExists (get_conversation_file w cid)],
        ticks := Suc (ticks w)\<rparr>)"
  using assms
  by (auto simp: key_absent_def load_from_storage_def utcnow_def get_object_def file_exists_def
      split: if_splits sum.splits exn.splits cell.splits)

text \<open>
  Claim C7. The messages loaded by \<open>save_interaction\<close> are a prefix of the messages it
  writes back: a successful call removes, reorders and changes nothing, it only
  appends.
\<close>

theorem messages_append_only:
  assumes ld: "load_from_storage w cid = (Inr d, w0)"
    and ok: "save_interaction w cid question answer h = (Inr (), w')"
  shows "\<exists>written. stored_messages w' cid = Some written \<and> prefix (get_messages d) written"
proof -
  have wr: "write_fault w (storage_key w cid) = None"
    by (rule write_ok_of_success [OF ld ok])
  have "stored_messages (snd (save_interaction w cid question answer h)) cid =
     Some (saved_messages (clock w) (ticks w0) (get_messages d) (history_list h) question answer)"
    by (rule stored_messages_after_save [OF ld wr])
  then have "stored_messages w' cid =
     Some (saved_messages (clock w) (ticks w0) (get_messages d) (history_list h) question answer)"
    by (simp add: ok)
  moreover have "prefix (get_messages d)
     (saved_messages (clock w) (ticks w0) (get_messages d) (history_list h) question answer)"
    by (simp add: saved_messages_def)
  ultimately show ?thesis by blast
qed

theorem messages_append_only_witness:
  "load_from_storage (holding_world True hi_conversation) ''c1'' =
     (Inr hi_conversation, (holding_world True hi_conversation)\<lparr>calls := [GetObject ''c1.json'']\<rparr>) \<and>
   fst (save_interaction (holding_world True hi_conversation) ''c1'' ''how are you?'' ''fine'' None)
     = Inr () \<and>
   get_messages hi_conversation =
     [\<lparr>role = Some (PyStr ''user''), content = Some (PyStr ''hi''),
        timestamp = Some (PyStr ''2023-12-31T23:59:58'')\<rparr>,
      \<lparr>role = Some (PyStr ''assistant''), content = Some (PyStr ''hello''),
        timestamp = Some (PyStr ''2023-12-31T23:59:59'')\<rparr>] \<and>
   map_option (take 2)
     (stored_messages
        (snd (save_interaction (holding_world True hi_conversation) ''c1'' ''how are you?'' ''fine'' None))
        ''c1'') =
     Some [\<lparr>role = Some (PyStr ''user''), content = Some (PyStr ''hi''),
             timestamp = Some (PyStr ''2023-12-31T23:59:58'')\<rparr>,
           \<lparr>role = Some (PyStr ''assistant''), content = Some (PyStr ''hello''),
             timestamp = Some (PyStr ''2023-12-31T23:59:59'')\<rparr>]"
proof -
  let ?w = "holding_world True hi_conversation"
  let ?r = "save_interaction ?w ''c1'' ''how are you?'' ''fine'' None"
  have ld: "load_from_storage ?w ''c1'' = (Inr hi_conversation, ?w\<lparr>calls := [GetObject ''c1.json'']\<rparr>)"
    by (rule load_held_s3)
  have f: "fst ?r = Inr ()"
    by (simp add: save_interaction_success [OF ld write_holding_world])
  then have ok: "?r = (Inr (), snd ?r)"
    by (metis prod.collapse)
  have g: "get_messages hi_conversation =
     [\<lparr>role = Some (PyStr ''user''), content = Some (PyStr ''hi''),
        timestamp = Some (PyStr ''2023-12-31T23:59:58'')\<rparr>,
      \<lparr>role = Some (PyStr ''assistant''), content = Some (PyStr ''hello''),
        timestamp = Some (PyStr ''2023-12-31T23:59:59'')\<rparr>]"
    by (simp add: get_messages_def hi_conversation_def)
  from messages_append_only [OF ld ok] obtain written where
    s: "stored_messages (snd ?r) ''c1'' = Some written" and p: "prefix (get_messages hi_conversation) written"
    by blast
  from p obtain rest where "written = get_messages hi_conversation @ rest"
    by (auto simp: prefix_def)
  then have "take 2 written = get_messages hi_conversation"
    by (simp add: g)
  then have t: "map_option (take 2) (stored_messages (snd ?r) ''c1'') = Some (get_messages hi_conversation)"
    by (simp add: s)
  from ld f g t show ?thesis
    by (simp only: g)
qed

text \<open>
  Claim C8. A successful \<open>save_interaction\<close> stores the loaded \<open>conversation_id\<close> and
  \<open>created_at\<close> unchanged and sets \<open>updated_at\<close> to the last reading of the clock in the
  call. A transcript synthesized for an absent key has no \<open>updated_at\<close>.
\<close>

theorem save_interaction_frame:
  assumes ld: "load_from_storage w cid = (Inr d, w0)"
    and ok: "save_interaction w cid question answer h = (Inr (), w')"
  shows "(\<exists>d'. stored w' cid = Some d' \<and>
            conversation_id d' = conversation_id d \<and>
            created_at d' = created_at d \<and>
            ticks w0 < ticks w' \<and>
            updated_at d' = Some (clock w (ticks w' - 1))) \<and>
         (key_absent w cid \<longrightarrow> updated_at d = None)"
proof
  have wr: "write_fault w (storage_key w cid) = None"
    by (rule write_ok_of_success [OF ld ok])
  let ?n = "length (fresh_keys (get_messages d) (history_list h))"
  let ?d' = "d\<lparr>messages := Some (saved_messages (clock w) (ticks w0) (get_messages d)
                                        (history_list h) question answer),
             updated_at := Some (clock w (ticks w0 + ?n + 2))\<rparr>"
  have "stored (snd (save_interaction w cid question answer h)) cid = Some ?d'"
    by (rule stored_after_save [OF ld wr])
  then have s: "stored w' cid = Some ?d'" by (simp add: ok)
  have "ticks w' = ticks (snd (save_interaction w cid question answer h))"
    by (simp add: ok)
  also have "\<dots> = ticks w0 + ?n + 3"
    by (simp add: save_interaction_success [OF ld wr])
  finally have t: "ticks w' = ticks w0 + ?n + 3" .
  have "ticks w' - 1 = ticks w0 + ?n + 2" using t by simp
  then have u: "updated_at ?d' = Some (clock w (ticks w' - 1))" by simp
  have l: "ticks w0 < ticks w'" using t by simp
  from s u l show "\<exists>d'. stored w' cid = Some d' \<and>
            conversation_id d' = conversation_id d \<and>
            created_at d' = created_at d \<and>
            ticks w0 < ticks w' \<and>
            updated_at d' = Some (clock w (ticks w' - 1))"
    by (intro exI [of _ ?d']) simp
next
  show "key_absent w cid \<longrightarrow> updated_at d = None"
  proof
    assume "key_absent w cid"
    from load_key_absent [OF this] ld
    have "d = fresh_conversation cid (clock w (ticks w))" by simp
    then show "updated_at d = None" by (simp add: fresh_conversation_def)
  qed
qed

lemma map_stored_key_saved_messages:
  "map stored_key (saved_messages clk t prior h question answer) =
     map stored_key prior @ fresh_keys prior h @
       [(PyStr ''user'', PyStr question), (PyStr ''assistant'', PyStr answer)]"
  by (simp add: saved_messages_def map_stored_key_stamp stored_key_new_message)

lemma fresh_keys_after_save:
  "fresh_keys (saved_messages clk t prior h question answer) h = []"
proof (rule fresh_keys_all_seen)
  show "set (map entry_key h) \<subseteq> set (map stored_key (saved_messages clk t prior h question answer))"
    unfolding map_stored_key_saved_messages
    by (auto simp: set_fresh_keys)
qed

text \<open>
  Claim C9. Two calls of \<open>save_interaction\<close> with the same conversation, question, answer
  and imported history: both succeed, the second appends nothing from the history and
  appends the user and assistant messages of the question and the answer a second time.
\<close>

theorem repeated_save_duplicates_turn:
  assumes ld: "load_from_storage w cid = (Inr d, w0)"
    and wr: "write_fault w (storage_key w cid) = None"
  shows "\<exists>m1 tq ta.
     fst (save_interaction w cid question answer h) = Inr () \<and>
     stored_messages (snd (save_interaction w cid question answer h)) cid = Some m1 \<and>
     map stored_key m1 =
       map stored_key (get_messages d) @ fresh_keys (get_messages d) (history_list h) @
         [(PyStr ''user'', PyStr question), (PyStr ''assistant'', PyStr answer)] \<and>
     fst (save_interaction (snd (save_interaction w cid question answer h)) cid question answer h)
       = Inr () \<and>
     stored_messages
       (snd (save_interaction (snd (save_interaction w cid question answer h)) cid question answer h))
       cid =
       Some (m1 @ [new_message (PyStr ''user'') (PyStr question) tq,
                   new_message (PyStr ''assistant'') (PyStr answer) ta])"
proof -
  let ?w1 = "snd (save_interaction w cid question answer h)"
  let ?m1 = "saved_messages (clock w) (ticks w0) (get_messages d) (history_list h) question answer"
  let ?d1 = "d\<lparr>messages := Some ?m1,
             updated_at := Some (clock w (ticks w0 + length (fresh_keys (get_messages d) (history_list h)) + 2))\<rparr>"
  from load_from_storage_frame [OF ld]
  have fr: "use_s3 w0 = use_s3 w" "file_of w0 = file_of w" "write_fault w0 = write_fault w"
    by simp_all
  note s1 = save_interaction_success [OF ld wr, of question answer h]
  have f1: "fst (save_interaction w cid question answer h) = Inr ()"
    by (simp add: s1)
  have st1: "stored_messages ?w1 cid = Some ?m1"
    by (rule stored_messages_after_save [OF ld wr])
  have u1: "use_s3 ?w1 = use_s3 w" "file_of ?w1 = file_of w" by (simp_all add: s1 fr)
  have k1: "storage_key ?w1 cid = storage_key w cid" by (rule storage_key_frame [OF u1])
  have o1: "objects ?w1 (storage_key ?w1 cid) = Holds ?d1"
    unfolding k1 by (simp add: s1)
  have ld1: "load_from_storage ?w1 cid = (Inr ?d1, ?w1\<lparr>calls := calls ?w1 @ read_calls ?w1 cid\<rparr>)"
    by (rule load_holds [OF o1])
  have wr1: "write_fault ?w1 (storage_key ?w1 cid) = None"
    unfolding k1 using wr by (simp add: s1 fr)
  have g1: "get_messages ?d1 = ?m1" by (simp add: get_messages_def)
  have f2: "fst (save_interaction ?w1 cid question answer h) = Inr ()"
    by (simp add: save_interaction_success [OF ld1 wr1])
  have "stored_messages (snd (save_interaction ?w1 cid question answer h)) cid =
     Some (saved_messages (clock ?w1) (ticks ?w1) (get_messages ?d1) (history_list h) question answer)"
    using stored_messages_after_save [OF ld1 wr1, of question answer h] by simp
  then have st2: "stored_messages (snd (save_interaction ?w1 cid question answer h)) cid =
     Some (?m1 @ [new_message (PyStr ''user'') (PyStr question) (clock ?w1 (ticks ?w1)),
                  new_message (PyStr ''assistant'') (PyStr answer) (clock ?w1 (ticks ?w1 + 1))])"
    unfolding g1 by (simp add: saved_messages_def [of _ _ ?m1] fresh_keys_after_save stamp_Nil)
  have km: "map stored_key ?m1 =
       map stored_key (get_messages d) @ fresh_keys (get_messages d) (history_list h) @
         [(PyStr ''user'', PyStr question), (PyStr ''assistant'', PyStr answer)]"
    by (rule map_stored_key_saved_messages)
  from f1 st1 km f2 st2 show ?thesis by blast
qed

lemma fresh_keys_hi:
  "fresh_keys (get_messages hi_conversation) (history_list (Some hi_history)) = []"
  by (simp add: fresh_keys_def first_occurrences_def hi_history_def hi_conversation_def
      history_list_def get_messages_def entry_key_eq stored_key_eq dict_get_def
      dict_get_default_def)

lemma stored_keys_hi:
  "map stored_key (get_messages hi_conversation) =
     [(PyStr ''user'', PyStr ''hi''), (PyStr ''assistant'', PyStr ''hello'')]"
  by (simp add: hi_conversation_def get_messages_def stored_key_eq dict_get_def)

theorem repeated_save_duplicates_turn_witness:
  "load_from_storage (holding_world False hi_conversation) ''c1'' =
     (Inr hi_conversation, (holding_world False hi_conversation)\<lparr>calls := [PathExists ''c1.json'', OpenRead ''c1.json'']\<rparr>) \<and>
   write_fault (holding_world False hi_conversation)
     (storage_key (holding_world False hi_conversation) ''c1'') = None \<and>
   map_option (map stored_key)
     (stored_messages
        (snd (save_interaction
               (snd (save_interaction (holding_world False hi_conversation) ''c1''
                       ''how are you?'' ''fine'' (Some hi_history)))
               ''c1'' ''how are you?'' ''fine'' (Some hi_history)))
        ''c1'') =
     Some [(PyStr ''user'', PyStr ''hi''), (PyStr ''assistant'', PyStr ''hello''),
           (PyStr ''user'', PyStr ''how are you?''), (PyStr ''assistant'', PyStr ''fine''),
           (PyStr ''user'', PyStr ''how are you?''), (PyStr ''assistant'', PyStr ''fine'')]"
proof -
  let ?w = "holding_world False hi_conversation"
  let ?w1 = "snd (save_interaction ?w ''c1'' ''how are you?'' ''fine'' (Some hi_history))"
  let ?s2 = "stored_messages
        (snd (save_interaction ?w1 ''c1'' ''how are you?'' ''fine'' (Some hi_history))) ''c1''"
  have ld: "load_from_storage ?w ''c1'' = (Inr hi_conversation, ?w\<lparr>calls := [PathExists ''c1.json'', OpenRead ''c1.json'']\<rparr>)"
    by (rule load_held_local)
  have wr: "write_fault ?w (storage_key ?w ''c1'') = None"
    by (rule write_holding_world)
  from repeated_save_duplicates_turn [OF ld wr, of "''how are you?''" "''fine''" "Some hi_history"]
  obtain m1 tq ta where
    k: "map stored_key m1 =
       map stored_key (get_messages hi_conversation) @
       fresh_keys (get_messages hi_conversation) (history_list (Some hi_history)) @
         [(PyStr ''user'', PyStr ''how are you?''), (PyStr ''assistant'', PyStr ''fine'')]"
    and s: "?s2 = Some (m1 @ [new_message (PyStr ''user'') (PyStr ''how are you?'') tq,
                   new_message (PyStr ''assistant'') (PyStr ''fine'') ta])"
    by blast
  have "map_option (map stored_key) ?s2 =
     Some (map stored_key m1 @
           [(PyStr ''user'', PyStr ''how are you?''), (PyStr ''assistant'', PyStr ''fine'')])"
    unfolding s by (simp add: stored_key_new_message)
  then have r: "map_option (map stored_key) ?s2 =
     Some [(PyStr ''user'', PyStr ''hi''), (PyStr ''assistant'', PyStr ''hello''),
           (PyStr ''user'', PyStr ''how are you?''), (PyStr ''assistant'', PyStr ''fine''),
           (PyStr ''user'', PyStr ''how are you?''), (PyStr ''assistant'', PyStr ''fine'')]"
    unfolding k fresh_keys_hi stored_keys_hi by simp
  from ld wr r show ?thesis by (intro conjI)
qed

lemma key_absent_empty_world: "key_absent (empty_world s3) cid"
  by (simp add: key_absent_def empty_world_def get_object_def file_exists_def)

theorem save_interaction_frame_witness:
  "load_from_storage (empty_world False) ''c1'' =
     (Inr (fresh_conversation ''c1'' ''2024-01-01T00:00:00''), (empty_world False)\<lparr>ticks := 1, calls := [PathExists ''c1.json'']\<rparr>) \<and>
   fst (save_interaction (empty_world False) ''c1'' ''What is PTO?'' ''10 days.'' None) = Inr () \<and>
   key_absent (empty_world False) ''c1'' \<and>
   updated_at (fresh_conversation ''c1'' ''2024-01-01T00:00:00'') = None \<and>
   map_option conversation_id
     (stored (snd (save_interaction (empty_world False) ''c1'' ''What is PTO?'' ''10 days.'' None)) ''c1'')
     = Some (Some ''c1'') \<and>
   map_option created_at
     (stored (snd (save_interaction (empty_world False) ''c1'' ''What is PTO?'' ''10 days.'' None)) ''c1'')
     = Some (Some ''2024-01-01T00:00:00'') \<and>
   map_option updated_at
     (stored (snd (save_interaction (empty_world False) ''c1'' ''What is PTO?'' ''10 days.'' None)) ''c1'')
     = Some (Some ''2024-01-01T00:00:03'')"
proof -
  let ?w = "empty_world False"
  let ?d = "fresh_conversation ''c1'' ''2024-01-01T00:00:00''"
  let ?r = "save_interaction ?w ''c1'' ''What is PTO?'' ''10 days.'' None"
  have ld: "load_from_storage ?w ''c1'' = (Inr ?d, ?w\<lparr>ticks := 1, calls := [PathExists ''c1.json'']\<rparr>)"
    by (rule load_empty_local)
  have wr: "write_fault ?w (storage_key ?w ''c1'') = None"
    by (simp add: empty_world_def)
  note sc = save_interaction_success [OF ld wr, of "''What is PTO?''" "''10 days.''" None]
  have f: "fst ?r = Inr ()" by (simp add: sc)
  then have ok: "?r = (Inr (), snd ?r)" by (metis prod.collapse)
  have ka: "key_absent ?w ''c1''" by (rule key_absent_empty_world)
  have n: "fresh_keys (get_messages ?d) (history_list None) = []"
    by (simp add: history_list_def fresh_keys_Nil)
  have tk: "ticks (snd ?r) = 4"
    unfolding sc n by simp
  have ck: "clock ?w (ticks (snd ?r) - 1) = ''2024-01-01T00:00:03''"
    unfolding tk by (simp add: empty_world_def example_clock_def)
  note t = save_interaction_frame [OF ld ok]
  from t ka have u0: "updated_at ?d = None" by blast
  from t obtain d' where
    s: "stored (snd ?r) ''c1'' = Some d'"
    and c: "conversation_id d' = conversation_id ?d"
    and a: "created_at d' = created_at ?d"
    and u: "updated_at d' = Some (clock ?w (ticks (snd ?r) - 1))"
    by blast
  have r1: "map_option conversation_id (stored (snd ?r) ''c1'') = Some (Some ''c1'')"
    by (simp add: s c fresh_conversation_def)
  have r2: "map_option created_at (stored (snd ?r) ''c1'') = Some (Some ''2024-01-01T00:00:00'')"
    by (simp add: s a fresh_conversation_def)
  have r3: "map_option updated_at (stored (snd ?r) ''c1'') = Some (Some ''2024-01-01T00:00:03'')"
  proof -
    have "updated_at d' = Some ''2024-01-01T00:00:03''"
      using u unfolding ck .
    then show ?thesis by (simp add: s)
  qed
  from ld f ka u0 r1 r2 r3 show ?thesis by (intro conjI)
qed

text \<open>
  Claim C3. When the key of the conversation is absent (the local file does not exist,
  or the object store answers with the error code \<open>NoSuchKey\<close>), the load raises
  nothing and returns a transcript with no messages whose \<open>created_at\<close> is the reading
  of the clock at that moment, whichever backend is in use.
\<close>

theorem load_absent_key_gives_empty_transcript:
  assumes "key_absent w cid"
  shows "load_from_storage w cid =
     (Inr \<lparr>conversation_id = Some cid, created_at = Some (clock w (ticks w)),
           updated_at = None, messages = Some []\<rparr>,
      w\<lparr>calls := calls w @ [if use_s3 w then GetObject (get_s3_key cid)
                                else PathExists (get_conversation_file w cid)],
        ticks := Suc (ticks w)\<rparr>)"
  using load_key_absent [OF assms] by (simp add: fresh_conversation_def)

theorem load_absent_key_gives_empty_transcript_witness:
  "key_absent (empty_world True) ''never-seen-id'' \<and>
   key_absent (empty_world False) ''never-seen-id'' \<and>
   fst (load_from_storage (empty_world True) ''never-seen-id'') =
     Inr \<lparr>conversation_id = Some ''never-seen-id'', created_at = Some ''2024-01-01T00:00:00'',
          updated_at = None, messages = Some []\<rparr> \<and>
   fst (load_from_storage (empty_world False) ''never-seen-id'') =
     Inr \<lparr>conversation_id = Some ''never-seen-id'', created_at = Some ''2024-01-01T00:00:00'',
          updated_at = None, messages = Some []\<rparr>"
proof -
  have a: "key_absent (empty_world True) ''never-seen-id''"
    and b: "key_absent (empty_world False) ''never-seen-id''"
    by (rule key_absent_empty_world)+
  have c: "clock (empty_world s3) (ticks (empty_world s3)) = ''2024-01-01T00:00:00''" for s3
    by (simp add: empty_world_def example_clock_def)
  from load_absent_key_gives_empty_transcript [OF a] load_absent_key_gives_empty_transcript [OF b] a b
  show ?thesis by (simp add: c)
qed

text \<open>
  Claim C4 as stated fails on the object store: an access-denied \<open>ClientError\<close> met by
  the read does not reach the caller as it is; a plain \<open>Exception\<close> with another
  text is raised in its place.
\<close>

theorem s3_client_error_is_replaced:
  "read_fault (broken_world True (ClientError ''AccessDenied'' ''Access Denied'')) ''c1'' =
     Some (ClientError ''AccessDenied'' ''Access Denied'') \<and>
   fst (load_from_storage (broken_world True (ClientError ''AccessDenied'' ''Access Denied'')) ''c1'') =
     Inl (Exception ''Error loading conversation from S3: Access Denied'') \<and>
   fst (load_from_storage (broken_world True (ClientError ''AccessDenied'' ''Access Denied'')) ''c1'') \<noteq>
     Inl (ClientError ''AccessDenied'' ''Access Denied'')"
  by (simp add: read_fault_def broken_world_def load_from_storage_def get_object_def get_s3_key_def
      is_no_such_key_def)

text \<open>
  Claim C4, amended. A read that meets a fault other than a missing key makes the load
  raise: no transcript is returned and the clock is not read. Nothing is tried again:
  the calls made to the backend are those of one read, a single \<open>get_object\<close>, or a
  single \<open>exists\<close> followed by a single \<open>open\<close>. The error raised is the fault
  itself, except for a \<open>ClientError\<close> of the object store, in whose place a plain
  \<open>Exception\<close> is raised that carries the text of the fault behind the words
  "Error loading conversation from S3: ".
\<close>

theorem read_fault_is_raised:
  assumes "read_fault w cid = Some e"
  shows "load_from_storage w cid =
     (Inl (case e of
             ClientError error_code text \<Rightarrow>
               if use_s3 w then Exception (''Error loading conversation from S3: '' @ text) else e
           | _ \<Rightarrow> e),
      w\<lparr>calls := calls w @
            (if use_s3 w then [GetObject (get_s3_key cid)]
             else [PathExists (get_conversation_file w cid),
                   OpenRead (get_conversation_file w cid)])\<rparr>)"
proof (cases "use_s3 w")
  case True
  with assms show ?thesis
    by (auto simp: read_fault_def load_from_storage_def is_no_such_key_def get_object_def
        split: if_splits sum.splits exn.splits cell.splits)
next
  case False
  with assms show ?thesis
    by (auto simp: read_fault_def load_from_storage_def file_exists_def json_load_def
        split: if_splits sum.splits exn.splits cell.splits)
qed

theorem read_fault_is_raised_witness:
  "read_fault (broken_world False (OtherError ''PermissionError'')) ''c1'' =
     Some (OtherError ''PermissionError'') \<and>
   load_from_storage (broken_world False (OtherError ''PermissionError'')) ''c1'' =
     (Inl (OtherError ''PermissionError''),
      (broken_world False (OtherError ''PermissionError''))
        \<lparr>calls := [PathExists ''c1.json'', OpenRead ''c1.json'']\<rparr>) \<and>
   read_fault (broken_world True (OtherError ''EndpointConnectionError'')) ''c1'' =
     Some (OtherError ''EndpointConnectionError'') \<and>
   load_from_storage (broken_world True (OtherError ''EndpointConnectionError'')) ''c1'' =
     (Inl (OtherError ''EndpointConnectionError''),
      (broken_world True (OtherError ''EndpointConnectionError''))
        \<lparr>calls := [GetObject ''c1.json'']\<rparr>) \<and>
   read_fault (broken_world True (ClientError ''AccessDenied'' ''Access Denied'')) ''c1'' =
     Some (ClientError ''AccessDenied'' ''Access Denied'') \<and>
   load_from_storage (broken_world True (ClientError ''AccessDenied'' ''Access Denied'')) ''c1'' =
     (Inl (Exception ''Error loading conversation from S3: Access Denied''),
      (broken_world True (ClientError ''AccessDenied'' ''Access Denied''))
        \<lparr>calls := [GetObject ''c1.json'']\<rparr>)"
proof -
  have rf: "read_fault (broken_world s3 e) ''c1'' = (if s3 \<and> is_no_such_key e then None else Some e)"
    for s3 e
    by (simp add: read_fault_def broken_world_def get_object_def get_s3_key_def file_exists_def
        json_load_def get_conversation_file_def)
  have a: "read_fault (broken_world False (OtherError ''PermissionError'')) ''c1'' =
     Some (OtherError ''PermissionError'')"
    by (simp add: rf)
  have b: "read_fault (broken_world True (OtherError ''EndpointConnectionError'')) ''c1'' =
     Some (OtherError ''EndpointConnectionError'')"
    by (simp add: rf is_no_such_key_def)
  have c: "read_fault (broken_world True (ClientError ''AccessDenied'' ''Access Denied'')) ''c1'' =
     Some (ClientError ''AccessDenied'' ''Access Denied'')"
    by (simp add: rf is_no_such_key_def)
  have u: "use_s3 (broken_world s3 e) = s3" "calls (broken_world s3 e) = []"
    "get_conversation_file (broken_world s3 e) ''c1'' = ''c1.json''"
    "get_s3_key ''c1'' = ''c1.json''" for s3 e
    by (simp_all add: broken_world_def get_conversation_file_def get_s3_key_def)
  from read_fault_is_raised [OF a] read_fault_is_raised [OF b] read_fault_is_raised [OF c] a b c
  show ?thesis by (simp add: u)
qed

lemma lower_User: "lower ''User'' = ''user''"
  by code_simp

lemma fresh_keys_capital:
  "fresh_keys (get_messages hi_conversation) (history_list (Some capital_history)) =
     [(PyStr ''User'', PyStr ''hi'')]"
  by (simp add: fresh_keys_def first_occurrences_def capital_history_def hi_conversation_def
      history_list_def get_messages_def entry_key_eq stored_key_eq dict_get_def
      dict_get_default_def)

text \<open>
  Claim C5 as stated fails: with the user message "hi" stored, an imported entry with
  role "User" and content "hi", whose role is equal to the stored one after
  lower-casing, is appended all the same.
\<close>

theorem role_case_is_not_normalised:
  "lower ''User'' = ''user'' \<and>
   map stored_key (get_messages hi_conversation) =
     [(PyStr ''user'', PyStr ''hi''), (PyStr ''assistant'', PyStr ''hello'')] \<and>
   map_option (map stored_key)
     (stored_messages
        (snd (save_interaction (holding_world False hi_conversation) ''c1''
                ''how are you?'' ''fine'' (Some capital_history)))
        ''c1'') =
     Some [(PyStr ''user'', PyStr ''hi''), (PyStr ''assistant'', PyStr ''hello''),
           (PyStr ''User'', PyStr ''hi''),
           (PyStr ''user'', PyStr ''how are you?''), (PyStr ''assistant'', PyStr ''fine'')]"
proof -
  let ?w = "holding_world False hi_conversation"
  have s: "stored_messages
        (snd (save_interaction ?w ''c1'' ''how are you?'' ''fine'' (Some capital_history))) ''c1'' =
      Some (saved_messages (clock ?w) (ticks ?w) (get_messages hi_conversation)
              (history_list (Some capital_history)) ''how are you?'' ''fine'')"
    using stored_messages_after_save [OF load_held_local write_holding_world,
        of hi_conversation "''how are you?''" "''fine''" "Some capital_history"]
    by simp
  show ?thesis
    unfolding s
    by (simp add: lower_User map_stored_key_saved_messages fresh_keys_capital stored_keys_hi)
qed

text \<open>
  Claim C5, amended. Roles are compared as they are, with no change of letter case: an
  entry of the imported history is left out exactly when a message of the loaded
  transcript has an equal role and an equal content; otherwise a message with the
  entry's own role and content is among those appended.
\<close>

theorem role_comparison_is_exact:
  assumes ld: "load_from_storage w cid = (Inr d, w0)"
    and wr: "write_fault w (storage_key w cid) = None"
  shows "\<exists>new tq ta.
     stored_messages (snd (save_interaction w cid question answer h)) cid =
       Some (get_messages d @ new @
             [new_message (PyStr ''user'') (PyStr question) tq,
              new_message (PyStr ''assistant'') (PyStr answer) ta]) \<and>
     (\<forall>e\<in>set (history_list h).
        ((entry_role e, entry_content e) \<in> set (map stored_key new)) =
        (\<not> list_ex (\<lambda>p. dict_get (role p) = entry_role e \<and> dict_get (content p) = entry_content e)
              (get_messages d)))"
proof -
  let ?ks = "fresh_keys (get_messages d) (history_list h)"
  let ?new = "stamp (clock w) (ticks w0) ?ks"
  from saved_shape [OF ld wr, of question answer h] obtain tq ta where
    s: "stored_messages (snd (save_interaction w cid question answer h)) cid =
      Some (get_messages d @ ?new @
            [new_message (PyStr ''user'') (PyStr question) tq,
             new_message (PyStr ''assistant'') (PyStr answer) ta])"
    by blast
  have a: "\<forall>e\<in>set (history_list h).
        ((entry_role e, entry_content e) \<in> set (map stored_key ?new)) =
        (\<not> list_ex (\<lambda>p. dict_get (role p) = entry_role e \<and> dict_get (content p) = entry_content e)
              (get_messages d))"
  proof
    fix e assume e: "e \<in> set (history_list h)"
    then have "entry_key e \<in> set (map entry_key (history_list h))" by simp
    then have "(entry_key e \<in> set ?ks) = (entry_key e \<notin> set (map stored_key (get_messages d)))"
      unfolding set_fresh_keys by blast
    then show "((entry_role e, entry_content e) \<in> set (map stored_key ?new)) =
        (\<not> list_ex (\<lambda>p. dict_get (role p) = entry_role e \<and> dict_get (content p) = entry_content e)
              (get_messages d))"
      unfolding map_stored_key_stamp
      using already_in_iff [of "get_messages d" "entry_role e" "entry_content e"]
      by (simp add: entry_key_eq already_in_def)
  qed
  from s a show ?thesis by blast
qed

theorem role_comparison_is_exact_witness:
  "load_from_storage (holding_world False hi_conversation) ''c1'' =
     (Inr hi_conversation, (holding_world False hi_conversation)\<lparr>calls := [PathExists ''c1.json'', OpenRead ''c1.json'']\<rparr>) \<and>
   write_fault (holding_world False hi_conversation)
     (storage_key (holding_world False hi_conversation) ''c1'') = None \<and>
   DictEntry (Some (PyStr ''User'')) (Some (PyStr ''hi'')) \<in> set (history_list (Some capital_history)) \<and>
   \<not> list_ex (\<lambda>p. dict_get (role p) = PyStr ''User'' \<and> dict_get (content p) = PyStr ''hi'')
         (get_messages hi_conversation) \<and>
   map_option (\<lambda>ms. (PyStr ''User'', PyStr ''hi'') \<in> set (map stored_key ms))
     (stored_messages
        (snd (save_interaction (holding_world False hi_conversation) ''c1''
                ''how are you?'' ''fine'' (Some capital_history)))
        ''c1'') = Some True"
proof -
  let ?w = "holding_world False hi_conversation"
  let ?e = "DictEntry (Some (PyStr ''User'')) (Some (PyStr ''hi''))"
  have ld: "load_from_storage ?w ''c1'' = (Inr hi_conversation, ?w\<lparr>calls := [PathExists ''c1.json'', OpenRead ''c1.json'']\<rparr>)"
    by (rule load_held_local)
  have wr: "write_fault ?w (storage_key ?w ''c1'') = None"
    by (rule write_holding_world)
  have m: "?e \<in> set (history_list (Some capital_history))"
    by (simp add: history_list_def capital_history_def)
  have er: "entry_role ?e = PyStr ''User''" "entry_content ?e = PyStr ''hi''"
    by (simp_all add: dict_get_default_def)
  have n: "\<not> list_ex (\<lambda>p. dict_get (role p) = PyStr ''User'' \<and> dict_get (content p) = PyStr ''hi'')
         (get_messages hi_conversation)"
    by (simp add: get_messages_def hi_conversation_def dict_get_def)
  from role_comparison_is_exact [OF ld wr, of "''how are you?''" "''fine''" "Some capital_history"]
  obtain new tq ta where
    s: "stored_messages (snd (save_interaction ?w ''c1'' ''how are you?'' ''fine'' (Some capital_history))) ''c1'' =
       Some (get_messages hi_conversation @ new @
             [new_message (PyStr ''user'') (PyStr ''how are you?'') tq,
              new_message (PyStr ''assistant'') (PyStr ''fine'') ta])"
    and a: "\<forall>e\<in>set (history_list (Some capital_history)).
        ((entry_role e, entry_content e) \<in> set (map stored_key new)) =
        (\<not> list_ex (\<lambda>p. dict_get (role p) = entry_role e \<and> dict_get (content p) = entry_content e)
              (get_messages hi_conversation))"
    by blast
  from a m have "((entry_role ?e, entry_content ?e) \<in> set (map stored_key new)) =
        (\<not> list_ex (\<lambda>p. dict_get (role p) = entry_role ?e \<and> dict_get (content p) = entry_content ?e)
              (get_messages hi_conversation))"
    by (rule bspec)
  then have "(PyStr ''User'', PyStr ''hi'') \<in> set (map stored_key new)"
    unfolding er using n by simp
  then have r: "map_option (\<lambda>ms. (PyStr ''User'', PyStr ''hi'') \<in> set (map stored_key ms))
     (stored_messages
        (snd (save_interaction ?w ''c1'' ''how are you?'' ''fine'' (Some capital_history))) ''c1'') = Some True"
    unfolding s by auto
  from ld wr m n r show ?thesis by (intro conjI)
qed









end
